theory Spec2Isabelle
  imports Complex_Main "HOL-Library.Multiset"
begin

section \<open>Movie catalog views and theme store: a shallow embedding\<close>

text \<open>
  The development models three React components: the dual-panel catalog view
  (variant A, \<^verbatim>\<open>fetchFromDB\<close> / \<^verbatim>\<open>fetchFromIMDB\<close>), the fallback catalog view
  (variant B, one \<^verbatim>\<open>fetchMovies\<close>) and the theme provider. Component state is a
  record that every handler takes and returns; the two HTTP collaborators are
  functions from the request to an outcome (a thrown error or a response); what
  the component renders is a list of elements computed from the state.
  A JavaScript string is a \<^typ>\<open>string\<close>, one \<^typ>\<open>char\<close> per UTF-16 code unit, so
  \<^verbatim>\<open>.length\<close> is \<^const>\<open>length\<close> and \<^verbatim>\<open>.substring(0, n)\<close> is \<^const>\<open>take\<close>.
\<close>

subsection \<open>Movies and cards\<close>

text \<open>
  A movie object, restricted to the fields the modelled parts of the card read.
  An absent field (\<^verbatim>\<open>undefined\<close>) is \<^const>\<open>None\<close>. The title, year, genre,
  director and score lines of the card are independent of the lines modelled here
  and are left out.
\<close>

record movie =
  movie_id :: "int option"
  description :: "string option"
  Plot :: "string option"
  ratings_count :: int

text \<open>Truthiness of an optional string: absent and the empty string are falsy.\<close>

definition truthy :: "string option \<Rightarrow> bool" where
  "truthy v = (case v of None \<Rightarrow> False | Some s \<Rightarrow> s \<noteq> [])"

text \<open>Decimal rendering of a number that holds an integer, as JSX prints it.\<close>

definition digit_char :: "nat \<Rightarrow> char" where
  "digit_char d = ''0123456789'' ! d"

function string_of_nat :: "nat \<Rightarrow> string" where
  "string_of_nat n =
     (if n < 10 then [digit_char n] else string_of_nat (n div 10) @ [digit_char (n mod 10)])"
  by pat_completeness auto
termination
  by (relation "measure (\<lambda>n. n)") auto

declare string_of_nat.simps [simp del]

definition string_of_number :: "int \<Rightarrow> string" where
  "string_of_number i =
     (if i < 0 then CHR ''-'' # string_of_nat (nat (- i)) else string_of_nat (nat i))"

text \<open>The card: the source badge, the description paragraph, the ratings-count span
  (present on cards that are not IMDB cards only) and the details link target.\<close>

record movie_card =
  imdb_badge :: bool
  description_text :: string
  rating_count :: "string option"
  details_link :: "int option option"

definition description_paragraph :: "movie \<Rightarrow> string" where
  "description_paragraph m =
     (if truthy (description m) then
        (case description m of
           Some d \<Rightarrow> if length d > 150 then take 150 d @ ''...'' else d
         | None \<Rightarrow> [])
      else if truthy (Plot m) then
        (case Plot m of
           Some p \<Rightarrow> if length p > 150 then take 150 p @ ''...'' else p
         | None \<Rightarrow> [])
      else ''No description available'')"

definition rating_count_span :: "movie \<Rightarrow> string" where
  "rating_count_span m =
     ''('' @ string_of_number (ratings_count m) @ '' '' @
     (if ratings_count m = 1 then ''rating'' else ''ratings'') @ '')''"

definition renderMovieCard :: "movie \<Rightarrow> bool \<Rightarrow> movie_card" where
  "renderMovieCard m isIMDBMovie =
     \<lparr> imdb_badge = isIMDBMovie,
       description_text = description_paragraph m,
       rating_count = (if \<not> isIMDBMovie then Some (rating_count_span m) else None),
       details_link = (if \<not> isIMDBMovie then Some (movie_id m) else None) \<rparr>"

subsection \<open>Collaborators and rendered elements\<close>

text \<open>An awaited call either throws (the promise rejects) or resolves to a response.\<close>

datatype 'a outcome = Throws | Resolves 'a

text \<open>The \<^verbatim>\<open>params\<close> object of the local API: \<^verbatim>\<open>page\<close> always, \<^verbatim>\<open>search\<close> only when
  the query is truthy.\<close>

record params =
  param_page :: int
  param_search :: "string option"

text \<open>\<^verbatim>\<open>response.data\<close> of the local API.\<close>

record db_data =
  results :: "movie list"
  count :: int

text \<open>
  The shape of an external response: \<^verbatim>\<open>response.data\<close> falsy; \<^verbatim>\<open>data\<close> present
  but its list field (\<^verbatim>\<open>description\<close> in variant A, \<^verbatim>\<open>results\<close> in variant B)
  falsy; or the list field holding an array.
\<close>

datatype ext_response = No_data | No_list | Has_list "movie list"

record services =
  getMovies :: "params \<Rightarrow> db_data outcome"
  searchMovies :: "string option \<Rightarrow> ext_response outcome"
  searchIMDB :: "string \<Rightarrow> ext_response outcome"

text \<open>A collaborator that gives the same outcome to every request.\<close>

definition always :: "'b \<Rightarrow> 'a \<Rightarrow> 'b" where
  "always reply request = reply"

datatype element =
    SearchInfo string
  | Loading string
  | ErrorMessage string
  | MovieGrid "movie_card list"
  | NoMovies string
  | Pagination int int bool bool

fun is_pagination :: "element \<Rightarrow> bool" where
  "is_pagination (Pagination p t prev_disabled next_disabled) = True"
| "is_pagination e = False"

fun is_error_message :: "element \<Rightarrow> bool" where
  "is_error_message (ErrorMessage t) = True"
| "is_error_message e = False"

fun is_search_info :: "element \<Rightarrow> bool" where
  "is_search_info (SearchInfo t) = True"
| "is_search_info e = False"

text \<open>State shared by both variants; \<open>console\<close> collects the label of every
  \<^verbatim>\<open>console.error\<close> call (the empty label for the bare \<^verbatim>\<open>console.error(err)\<close>).\<close>

record catalog_state =
  searchTerm :: string
  page :: int
  totalPages :: int
  console :: "string list"

definition request_params :: "string \<Rightarrow> int \<Rightarrow> params" where
  "request_params searchQuery pageNum =
     \<lparr> param_page = pageNum,
       param_search = (if searchQuery \<noteq> [] then Some searchQuery else None) \<rparr>"

text \<open>\<^verbatim>\<open>Math.ceil(total / perPage)\<close> with \<^verbatim>\<open>perPage = 10\<close>, on the reals.\<close>

definition calcTotalPages :: "int \<Rightarrow> int" where
  "calcTotalPages total_count = (let perPage = 10 in \<lceil>real_of_int total_count / perPage\<rceil>)"

subsection \<open>Variant A: two independent panels\<close>

record stateA = catalog_state +
  dbMovies :: "movie list"
  imdbMovies :: "movie list"
  dbLoading :: bool
  imdbLoading :: bool
  dbError :: string
  imdbError :: string

definition initialA :: stateA where
  "initialA =
     \<lparr> searchTerm = [], page = 1, totalPages = 1, console = [],
       dbMovies = [], imdbMovies = [], dbLoading = True, imdbLoading = True,
       dbError = [], imdbError = [] \<rparr>"

definition randomWords :: "string list" where
  "randomWords =
     [''action'', ''love'', ''war'', ''adventure'', ''comedy'', ''drama'', ''hero'',
      ''legend'', ''dark'', ''the'']"

definition randomLetters :: string where
  "randomLetters = ''abcdefghijklmnopqrstuvwxyz''"

text \<open>Indexing an array or a string: \<^verbatim>\<open>undefined\<close> outside the range.\<close>

definition js_index :: "'a list \<Rightarrow> int \<Rightarrow> 'a option" where
  "js_index xs i = (if 0 \<le> i \<and> i < int (length xs) then Some (xs ! nat i) else None)"

text \<open>\<^verbatim>\<open>getRandomQuery\<close>, with the two values drawn from \<^verbatim>\<open>Math.random()\<close> as arguments.\<close>

definition getRandomQuery :: "real \<Rightarrow> real \<Rightarrow> string option" where
  "getRandomQuery r1 r2 =
     (if r1 > 0.5 then js_index randomWords \<lfloor>r2 * real (length randomWords)\<rfloor>
      else map_option (\<lambda>c. [c]) (js_index randomLetters \<lfloor>r2 * real (length randomLetters)\<rfloor>))"

text \<open>\<^verbatim>\<open>searchQuery || getRandomQuery()\<close>.\<close>

definition imdb_query :: "string \<Rightarrow> real \<Rightarrow> real \<Rightarrow> string option" where
  "imdb_query searchQuery r1 r2 =
     (if searchQuery \<noteq> [] then Some searchQuery else getRandomQuery r1 r2)"

text \<open>
  Each panel fetch runs up to its \<^verbatim>\<open>await\<close> when it is called and resumes when its
  request settles: \<open>_start\<close> is the part before the \<^verbatim>\<open>await\<close>, \<open>_settle\<close> the rest
  (\<^verbatim>\<open>try\<close> body, \<^verbatim>\<open>catch\<close> and \<^verbatim>\<open>finally\<close>).
\<close>

definition fetchFromDB_start :: "stateA \<Rightarrow> stateA" where
  "fetchFromDB_start st = st\<lparr>dbLoading := True\<rparr>"

definition fetchFromDB_settle :: "db_data outcome \<Rightarrow> stateA \<Rightarrow> stateA" where
  "fetchFromDB_settle reply st =
     (case reply of
        Resolves response \<Rightarrow>
          st\<lparr>dbMovies := results response,
             totalPages := calcTotalPages (count response),
             dbError := [],
             dbLoading := False\<rparr>
      | Throws \<Rightarrow>
          st\<lparr>dbError := ''Failed to load movies from database'',
             console := console st @ [''DB fetch error:''],
             dbMovies := [],
             dbLoading := False\<rparr>)"

definition fetchFromIMDB_start :: "stateA \<Rightarrow> stateA" where
  "fetchFromIMDB_start st = st\<lparr>imdbLoading := True\<rparr>"

definition fetchFromIMDB_settle :: "ext_response outcome \<Rightarrow> stateA \<Rightarrow> stateA" where
  "fetchFromIMDB_settle reply st =
     (case reply of
        Resolves response \<Rightarrow>
          (case response of
             Has_list xs \<Rightarrow> st\<lparr>imdbMovies := xs\<rparr>
           | _ \<Rightarrow> st\<lparr>imdbMovies := []\<rparr>)
          \<lparr>imdbError := [], imdbLoading := False\<rparr>
      | Throws \<Rightarrow>
          st\<lparr>imdbError := ''Failed to load movies from IMDB'',
             console := console st @ [''IMDB fetch error:''],
             imdbMovies := [],
             imdbLoading := False\<rparr>)"

text \<open>
  \<^verbatim>\<open>Promise.all([fetchFromDB(), fetchFromIMDB()])\<close>: both fetches start, in this
  order, and the two requests settle in either order (\<open>db_first\<close>).
\<close>

definition fetchMoviesA ::
  "services \<Rightarrow> real \<Rightarrow> real \<Rightarrow> bool \<Rightarrow> string \<Rightarrow> int \<Rightarrow> stateA \<Rightarrow> stateA" where
  "fetchMoviesA srv r1 r2 db_first searchQuery pageNum st =
     (let s1 = fetchFromDB_start st;
          dbReply = getMovies srv (request_params searchQuery pageNum);
          s2 = fetchFromIMDB_start s1;
          imdbReply = searchMovies srv (imdb_query searchQuery r1 r2)
      in if db_first then fetchFromIMDB_settle imdbReply (fetchFromDB_settle dbReply s2)
         else fetchFromDB_settle dbReply (fetchFromIMDB_settle imdbReply s2))"

text \<open>
  Submitting the search form. \<^verbatim>\<open>handleSearch\<close> calls \<^verbatim>\<open>setPage(1)\<close> and then
  \<^verbatim>\<open>fetchMovies(searchTerm, 1)\<close> without awaiting it, so when the handler returns both
  panel fetches have started and their requests are pending. On the render that
  follows, the effect with dependency \<^verbatim>\<open>[page]\<close> runs \<^verbatim>\<open>fetchMovies(searchTerm, page)\<close>
  once more when the page has changed, with its own draws for the random query. The
  pending requests then settle, in any order.
\<close>

datatype settleA = DbSettles "db_data outcome" | ImdbSettles "ext_response outcome"

fun settleA_step :: "settleA \<Rightarrow> stateA \<Rightarrow> stateA" where
  "settleA_step (DbSettles reply) st = fetchFromDB_settle reply st"
| "settleA_step (ImdbSettles reply) st = fetchFromIMDB_settle reply st"

text \<open>\<^verbatim>\<open>fetchMovies\<close> up to its \<^verbatim>\<open>await\<close>, and the requests it leaves pending.\<close>

definition fetchMoviesA_begin :: "stateA \<Rightarrow> stateA" where
  "fetchMoviesA_begin st = fetchFromIMDB_start (fetchFromDB_start st)"

definition fetchMoviesA_pending ::
  "services \<Rightarrow> real \<Rightarrow> real \<Rightarrow> string \<Rightarrow> int \<Rightarrow> settleA list" where
  "fetchMoviesA_pending srv r1 r2 searchQuery pageNum =
     [DbSettles (getMovies srv (request_params searchQuery pageNum)),
      ImdbSettles (searchMovies srv (imdb_query searchQuery r1 r2))]"

definition handleSearchA :: "stateA \<Rightarrow> stateA" where
  "handleSearchA st = fetchMoviesA_begin (st\<lparr>page := 1\<rparr>)"

text \<open>The effect, after a render that follows one with page \<open>renderedPage\<close>.\<close>

definition pageEffectA :: "int \<Rightarrow> stateA \<Rightarrow> stateA" where
  "pageEffectA renderedPage st =
     (if page st \<noteq> renderedPage then fetchMoviesA_begin st else st)"

text \<open>The state once the handler and the effect have run, and the requests then
  pending: those of the handler's fetch (draws \<open>r1\<close>, \<open>r2\<close>) and, when the page has
  changed, those of the effect's fetch (draws \<open>r3\<close>, \<open>r4\<close>).\<close>

definition submitA_begin :: "stateA \<Rightarrow> stateA" where
  "submitA_begin st = pageEffectA (page st) (handleSearchA st)"

definition submitA_pending ::
  "services \<Rightarrow> real \<Rightarrow> real \<Rightarrow> real \<Rightarrow> real \<Rightarrow> stateA \<Rightarrow> settleA list" where
  "submitA_pending srv r1 r2 r3 r4 st =
     fetchMoviesA_pending srv r1 r2 (searchTerm st) 1 @
     (let s1 = handleSearchA st in
      if page s1 \<noteq> page st then fetchMoviesA_pending srv r3 r4 (searchTerm s1) (page s1)
      else [])"

text \<open>A submit whose requests settle as the list \<open>events\<close>, a permutation of the
  pending ones.\<close>

definition submitA :: "settleA list \<Rightarrow> stateA \<Rightarrow> stateA" where
  "submitA events st = fold settleA_step events (submitA_begin st)"

text \<open>The parts of the state that each panel's fetch writes.\<close>

definition db_part :: "stateA \<Rightarrow> movie list \<times> string \<times> bool \<times> int" where
  "db_part s = (dbMovies s, dbError s, dbLoading s, totalPages s)"

definition imdb_part :: "stateA \<Rightarrow> movie list \<times> string \<times> bool" where
  "imdb_part s = (imdbMovies s, imdbError s, imdbLoading s)"

definition renderDbPanel :: "stateA \<Rightarrow> element list" where
  "renderDbPanel st =
     (if dbLoading st then [Loading ''Loading movies from database...''] else []) @
     (if dbError st \<noteq> [] then [ErrorMessage (dbError st)] else []) @
     [MovieGrid (map (\<lambda>m. renderMovieCard m False) (dbMovies st))] @
     (if \<not> dbLoading st \<and> dbMovies st = [] \<and> dbError st = [] then
        [NoMovies (''No movies found in our database. '' @
                   (if searchTerm st \<noteq> [] then ''Try a different search term or '' else []) @
                   ''add a new movie.'')]
      else []) @
     (if totalPages st > 1 then
        [Pagination (page st) (totalPages st) (page st = 1) (page st = totalPages st)]
      else [])"

definition renderImdbPanel :: "stateA \<Rightarrow> element list" where
  "renderImdbPanel st =
     (if imdbLoading st then [Loading ''Loading movies from IMDB...''] else []) @
     (if imdbError st \<noteq> [] then [ErrorMessage (imdbError st)] else []) @
     [MovieGrid (map (\<lambda>m. renderMovieCard m True) (imdbMovies st))] @
     (if \<not> imdbLoading st \<and> imdbMovies st = [] \<and> imdbError st = [] then
        [NoMovies ''No movies found from IMDB.'']
      else [])"

subsection \<open>Variant B: one panel with a fallback\<close>

datatype source = Db | Imdb

record stateB = catalog_state +
  movies :: "movie list"
  loading :: bool
  error :: string
  searchSource :: "source option"

definition initialB :: stateB where
  "initialB =
     \<lparr> searchTerm = [], page = 1, totalPages = 1, console = [],
       movies = [], loading = True, error = [], searchSource = None \<rparr>"

definition fetchMoviesB :: "services \<Rightarrow> string \<Rightarrow> int \<Rightarrow> stateB \<Rightarrow> stateB" where
  "fetchMoviesB srv searchQuery pageNum st =
     (let s0 = st\<lparr>loading := True, searchSource := None\<rparr> in
      case getMovies srv (request_params searchQuery pageNum) of
        Throws \<Rightarrow>
          s0\<lparr>error := ''Failed to load movies'',
             console := console s0 @ [[]],
             loading := False\<rparr>
      | Resolves response \<Rightarrow>
          (if searchQuery \<noteq> [] \<and> length (results response) = 0 then
             (case searchIMDB srv searchQuery of
                Resolves (Has_list xs) \<Rightarrow>
                  if length xs > 0 then
                    s0\<lparr>movies := xs, searchSource := Some Imdb, totalPages := 1\<rparr>
                  else s0\<lparr>movies := [], searchSource := Some Db\<rparr>
              | Resolves _ \<Rightarrow> s0\<lparr>movies := [], searchSource := Some Db\<rparr>
              | Throws \<Rightarrow>
                  s0\<lparr>console := console s0 @ [''IMDB search failed:''],
                     movies := [],
                     searchSource := Some Db\<rparr>)
           else
             s0\<lparr>movies := results response,
                searchSource := Some Db,
                totalPages := calcTotalPages (count response)\<rparr>)
          \<lparr>error := [], loading := False\<rparr>)"

text \<open>
  \<^verbatim>\<open>fetchMovies\<close> in two parts: up to its first \<^verbatim>\<open>await\<close>, and from the reply of the
  local API to the end (the dependent external request included), on the state as it is
  when the reply arrives.
\<close>

definition fetchMoviesB_begin :: "stateB \<Rightarrow> stateB" where
  "fetchMoviesB_begin st = st\<lparr>loading := True, searchSource := None\<rparr>"

definition fetchMoviesB_finish ::
  "services \<Rightarrow> string \<Rightarrow> db_data outcome \<Rightarrow> stateB \<Rightarrow> stateB" where
  "fetchMoviesB_finish srv searchQuery reply st =
     (case reply of
        Throws \<Rightarrow>
          st\<lparr>error := ''Failed to load movies'',
             console := console st @ [[]],
             loading := False\<rparr>
      | Resolves response \<Rightarrow>
          (if searchQuery \<noteq> [] \<and> length (results response) = 0 then
             (case searchIMDB srv searchQuery of
                Resolves (Has_list xs) \<Rightarrow>
                  if length xs > 0 then
                    st\<lparr>movies := xs, searchSource := Some Imdb, totalPages := 1\<rparr>
                  else st\<lparr>movies := [], searchSource := Some Db\<rparr>
              | Resolves _ \<Rightarrow> st\<lparr>movies := [], searchSource := Some Db\<rparr>
              | Throws \<Rightarrow>
                  st\<lparr>console := console st @ [''IMDB search failed:''],
                     movies := [],
                     searchSource := Some Db\<rparr>)
           else
             st\<lparr>movies := results response,
                searchSource := Some Db,
                totalPages := calcTotalPages (count response)\<rparr>)
          \<lparr>error := [], loading := False\<rparr>)"

text \<open>
  Submitting the search form: \<^verbatim>\<open>handleSearch\<close> calls \<^verbatim>\<open>setPage(1)\<close> and starts
  \<^verbatim>\<open>fetchMovies(searchTerm, 1)\<close>; on the render that follows, the effect with
  dependency \<^verbatim>\<open>[page]\<close> starts \<^verbatim>\<open>fetchMovies(searchTerm, page)\<close> once more when the page
  has changed; then every started fetch finishes with the reply to its request.
\<close>

definition handleSearchB :: "stateB \<Rightarrow> stateB" where
  "handleSearchB st = fetchMoviesB_begin (st\<lparr>page := 1\<rparr>)"

definition pageEffectB :: "int \<Rightarrow> stateB \<Rightarrow> stateB" where
  "pageEffectB renderedPage st =
     (if page st \<noteq> renderedPage then fetchMoviesB_begin st else st)"

definition submitB :: "services \<Rightarrow> stateB \<Rightarrow> stateB" where
  "submitB srv st =
     (let s1 = handleSearchB st;
          first = fetchMoviesB_finish srv (searchTerm st)
                    (getMovies srv (request_params (searchTerm st) 1));
          s2 = pageEffectB (page st) s1;
          second = fetchMoviesB_finish srv (searchTerm s1)
                     (getMovies srv (request_params (searchTerm s1) (page s1)))
      in if page s1 \<noteq> page st then second (first s2) else first s2)"

text \<open>The rendered view, top to bottom. The banner text is the source's without its
  leading emoji; the no-results message is the text with its link label inlined.\<close>

definition renderB :: "stateB \<Rightarrow> element list" where
  "renderB st =
     (if searchSource st = Some Imdb then
        [SearchInfo ''Showing results from IMDB. No matches found in our database.'']
      else []) @
     (if loading st then [Loading ''Loading movies...''] else []) @
     (if error st \<noteq> [] then [ErrorMessage (error st)] else []) @
     [MovieGrid (map (\<lambda>m. renderMovieCard m (searchSource st = Some Imdb)) (movies st))] @
     (if \<not> loading st \<and> length (movies st) = 0 then
        [NoMovies (''No movies found. '' @
                   (if searchTerm st \<noteq> [] then ''Try a different search term or '' else []) @
                   ''add a new movie.'')]
      else []) @
     (if totalPages st > 1 \<and> searchSource st = Some Db then
        [Pagination (page st) (totalPages st) (page st = 1) (page st = totalPages st)]
      else [])"

subsection \<open>Theme provider\<close>

text \<open>\<^verbatim>\<open>localStorage\<close> is a map from keys to strings; \<^verbatim>\<open>getItem\<close> of a missing key
  is \<^verbatim>\<open>null\<close>, here \<^const>\<open>None\<close>.\<close>

type_synonym storage = "string \<rightharpoonup> string"

record theme_state =
  theme :: string
  localStorage :: storage

text \<open>The initialiser of \<^verbatim>\<open>useState\<close>: \<^verbatim>\<open>savedTheme || 'dark'\<close>.\<close>

definition initTheme :: "storage \<Rightarrow> string" where
  "initTheme store =
     (let savedTheme = store ''theme'' in
      case savedTheme of
        None \<Rightarrow> ''dark''
      | Some s \<Rightarrow> if s \<noteq> [] then s else ''dark'')"

text \<open>Mounting the provider over a given storage (a first load, or a reload).\<close>

definition mountThemeProvider :: "storage \<Rightarrow> theme_state" where
  "mountThemeProvider store = \<lparr> theme = initTheme store, localStorage = store \<rparr>"

definition changeTheme :: "string \<Rightarrow> theme_state \<Rightarrow> theme_state" where
  "changeTheme newTheme st =
     st\<lparr>theme := newTheme, localStorage := (localStorage st)(''theme'' \<mapsto> newTheme)\<rparr>"

definition reload :: "theme_state \<Rightarrow> theme_state" where
  "reload st = mountThemeProvider (localStorage st)"

text \<open>The values of the \<^verbatim>\<open>themes\<close> entries of the toggle, the only arguments with which
  \<^verbatim>\<open>handleThemeChange\<close> is called; it calls \<^verbatim>\<open>changeTheme\<close> and closes the dropdown,
  whose open flag is local to the toggle and not part of this state.\<close>

definition themes :: "string list" where
  "themes = [''dark'', ''light'', ''system'']"

definition handleThemeChange :: "string \<Rightarrow> theme_state \<Rightarrow> theme_state" where
  "handleThemeChange newTheme st = changeTheme newTheme st"

section \<open>Properties\<close>

subsection \<open>Helper facts\<close>

lemma string_of_nat_small: "n < 10 \<Longrightarrow> string_of_nat n = [digit_char n]"
  by (simp add: string_of_nat.simps)

lemma ceiling_tenth: "\<lceil>real_of_int c / 10\<rceil> = (c + 9) div 10"
proof -
  have "\<lceil>real_of_int c / real_of_int 10\<rceil> = - ((- c) div 10)"
    unfolding ceiling_def by (metis floor_divide_of_int_eq of_int_minus minus_divide_left)
  also have "\<dots> = (c + 9) div 10"
    by presburger
  finally show ?thesis
    by simp
qed

lemma calcTotalPages_div: "calcTotalPages c = (c + 9) div 10"
  by (simp add: calcTotalPages_def ceiling_tenth)

lemma calcTotalPages_ceiling: "calcTotalPages c = \<lceil>real_of_int c / 10\<rceil>"
  by (simp add: calcTotalPages_def)

lemma totalPages_fetchFromIMDB_settle [simp]:
  "totalPages (fetchFromIMDB_settle reply st) = totalPages st"
  by (simp add: fetchFromIMDB_settle_def split: outcome.splits ext_response.splits)

lemma totalPages_fetchFromDB_settle_Resolves [simp]:
  "totalPages (fetchFromDB_settle (Resolves response) st) = calcTotalPages (count response)"
  by (simp add: fetchFromDB_settle_def)

lemma renderImdbPanel_fetchFromDB_settle [simp]:
  "renderImdbPanel (fetchFromDB_settle reply st) = renderImdbPanel st"
  by (simp add: fetchFromDB_settle_def renderImdbPanel_def split: outcome.splits)

lemma renderImdbPanel_fetchFromDB_start [simp]:
  "renderImdbPanel (fetchFromDB_start st) = renderImdbPanel st"
  by (simp add: fetchFromDB_start_def renderImdbPanel_def)

lemma renderDbPanel_fetchFromIMDB_settle [simp]:
  "renderDbPanel (fetchFromIMDB_settle reply st) = renderDbPanel st"
  by (simp add: fetchFromIMDB_settle_def renderDbPanel_def split: outcome.splits ext_response.splits)

lemma renderDbPanel_fetchFromIMDB_start [simp]:
  "renderDbPanel (fetchFromIMDB_start st) = renderDbPanel st"
  by (simp add: fetchFromIMDB_start_def renderDbPanel_def)

lemma renderImdbPanel_settle_Throws:
  "renderImdbPanel (fetchFromIMDB_settle Throws st) =
     [ErrorMessage ''Failed to load movies from IMDB'', MovieGrid []]"
  by (simp add: fetchFromIMDB_settle_def renderImdbPanel_def)

lemma renderImdbPanel_settle_Resolves:
  "renderImdbPanel (fetchFromIMDB_settle (Resolves response) st) =
     (case response of
        Has_list xs \<Rightarrow>
          [MovieGrid (map (\<lambda>m. renderMovieCard m True) xs)] @
          (if xs = [] then [NoMovies ''No movies found from IMDB.''] else [])
      | _ \<Rightarrow> [MovieGrid [], NoMovies ''No movies found from IMDB.''])"
  by (simp add: fetchFromIMDB_settle_def renderImdbPanel_def split: ext_response.splits)

lemma renderDbPanel_settle_Throws:
  "renderDbPanel (fetchFromDB_settle Throws st) =
     [ErrorMessage ''Failed to load movies from database'', MovieGrid []] @
     (if totalPages st > 1 then
        [Pagination (page st) (totalPages st) (page st = 1) (page st = totalPages st)]
      else [])"
  by (simp add: fetchFromDB_settle_def renderDbPanel_def)

lemma renderDbPanel_settle_Resolves:
  "renderDbPanel (fetchFromDB_settle (Resolves response) st) =
     [MovieGrid (map (\<lambda>m. renderMovieCard m False) (results response))] @
     (if results response = [] then
        [NoMovies (''No movies found in our database. '' @
                   (if searchTerm st \<noteq> [] then ''Try a different search term or '' else []) @
                   ''add a new movie.'')]
      else []) @
     (if calcTotalPages (count response) > 1 then
        [Pagination (page st) (calcTotalPages (count response)) (page st = 1)
           (page st = calcTotalPages (count response))]
      else [])"
  by (simp add: fetchFromDB_settle_def renderDbPanel_def)

lemma fetchFromIMDB_settle_frame [simp]:
  "page (fetchFromIMDB_settle reply st) = page st"
  "searchTerm (fetchFromIMDB_settle reply st) = searchTerm st"
  "dbMovies (fetchFromIMDB_settle reply st) = dbMovies st"
  "dbError (fetchFromIMDB_settle reply st) = dbError st"
  "dbLoading (fetchFromIMDB_settle reply st) = dbLoading st"
  by (simp_all add: fetchFromIMDB_settle_def split: outcome.splits ext_response.splits)

lemma fetchFromDB_settle_frame [simp]:
  "page (fetchFromDB_settle reply st) = page st"
  "searchTerm (fetchFromDB_settle reply st) = searchTerm st"
  "imdbMovies (fetchFromDB_settle reply st) = imdbMovies st"
  "imdbError (fetchFromDB_settle reply st) = imdbError st"
  "imdbLoading (fetchFromDB_settle reply st) = imdbLoading st"
  by (simp_all add: fetchFromDB_settle_def split: outcome.splits)

lemma fetchFromDB_start_frame [simp]:
  "page (fetchFromDB_start st) = page st"
  "searchTerm (fetchFromDB_start st) = searchTerm st"
  "totalPages (fetchFromDB_start st) = totalPages st"
  by (simp_all add: fetchFromDB_start_def)

lemma fetchFromIMDB_start_frame [simp]:
  "page (fetchFromIMDB_start st) = page st"
  "searchTerm (fetchFromIMDB_start st) = searchTerm st"
  "totalPages (fetchFromIMDB_start st) = totalPages st"
  by (simp_all add: fetchFromIMDB_start_def)

lemma renderImdbPanel_fetchMoviesA:
  "renderImdbPanel (fetchMoviesA srv r1 r2 db_first searchQuery pageNum st) =
     renderImdbPanel (fetchFromIMDB_settle (searchMovies srv (imdb_query searchQuery r1 r2)) st)"
  by (cases "searchMovies srv (imdb_query searchQuery r1 r2)")
     (simp_all add: fetchMoviesA_def Let_def renderImdbPanel_settle_Throws
        renderImdbPanel_settle_Resolves)

lemma renderDbPanel_fetchMoviesA:
  "renderDbPanel (fetchMoviesA srv r1 r2 db_first searchQuery pageNum st) =
     renderDbPanel (fetchFromDB_settle (getMovies srv (request_params searchQuery pageNum)) st)"
  by (cases "getMovies srv (request_params searchQuery pageNum)")
     (simp_all add: fetchMoviesA_def Let_def renderDbPanel_settle_Throws
        renderDbPanel_settle_Resolves)


lemma fetchMoviesB_frame [simp]:
  "page (fetchMoviesB srv searchQuery pageNum st) = page st"
  "searchTerm (fetchMoviesB srv searchQuery pageNum st) = searchTerm st"
  by (simp_all add: fetchMoviesB_def Let_def split: outcome.splits ext_response.splits)

lemma fetchMoviesA_frame [simp]:
  "page (fetchMoviesA srv r1 r2 db_first searchQuery pageNum st) = page st"
  "searchTerm (fetchMoviesA srv r1 r2 db_first searchQuery pageNum st) = searchTerm st"
  by (simp_all add: fetchMoviesA_def Let_def)

lemma request_params_page_1:
  "request_params q 1 = \<lparr>param_page = 1, param_search = (if q \<noteq> [] then Some q else None)\<rparr>"
  by (simp add: request_params_def)

lemma fetchMoviesB_same_replies:
  assumes "getMovies srv' (request_params q p) = getMovies srv (request_params q p)"
    and "searchIMDB srv' q = searchIMDB srv q"
  shows "fetchMoviesB srv' q p st = fetchMoviesB srv q p st"
  unfolding fetchMoviesB_def assms by (rule refl)

lemma fetchMoviesA_same_replies:
  assumes "getMovies srv' (request_params q p) = getMovies srv (request_params q p)"
    and "searchMovies srv' (imdb_query q r1 r2) = searchMovies srv (imdb_query q r1 r2)"
  shows "fetchMoviesA srv' r1 r2 db_first q p st = fetchMoviesA srv r1 r2 db_first q p st"
  unfolding fetchMoviesA_def assms by (rule refl)

lemma fetchMoviesB_split:
  "fetchMoviesB srv q p st =
     fetchMoviesB_finish srv q (getMovies srv (request_params q p)) (fetchMoviesB_begin st)"
  by (simp add: fetchMoviesB_def fetchMoviesB_finish_def fetchMoviesB_begin_def Let_def)

lemma fetchMoviesA_split:
  "fetchMoviesA srv r1 r2 db_first q p st =
     fold settleA_step
       (if db_first then fetchMoviesA_pending srv r1 r2 q p
        else rev (fetchMoviesA_pending srv r1 r2 q p))
       (fetchMoviesA_begin st)"
  by (simp add: fetchMoviesA_def fetchMoviesA_pending_def fetchMoviesA_begin_def Let_def)

lemma settleA_step_frame [simp]:
  "page (settleA_step e s) = page s"
  "searchTerm (settleA_step e s) = searchTerm s"
  by (cases e; simp)+

lemma fold_settleA_frame [simp]:
  "page (fold settleA_step es s) = page s"
  "searchTerm (fold settleA_step es s) = searchTerm s"
  by (induction es arbitrary: s) simp_all

lemma submitA_begin_frame [simp]:
  "page (submitA_begin st) = 1"
  "searchTerm (submitA_begin st) = searchTerm st"
  "totalPages (submitA_begin st) = totalPages st"
  by (simp_all add: submitA_begin_def pageEffectA_def handleSearchA_def fetchMoviesA_begin_def)

lemma handleSearchA_frame [simp]:
  "page (handleSearchA st) = 1"
  "searchTerm (handleSearchA st) = searchTerm st"
  by (simp_all add: handleSearchA_def fetchMoviesA_begin_def)

lemma submitA_pending_requests:
  "submitA_pending srv r1 r2 r3 r4 st =
     [DbSettles (getMovies srv (request_params (searchTerm st) 1)),
      ImdbSettles (searchMovies srv (imdb_query (searchTerm st) r1 r2))] @
     (if page st \<noteq> 1 then
        [DbSettles (getMovies srv (request_params (searchTerm st) 1)),
         ImdbSettles (searchMovies srv (imdb_query (searchTerm st) r3 r4))]
      else [])"
  by (auto simp add: submitA_pending_def fetchMoviesA_pending_def Let_def)

lemma renderDbPanel_cong:
  assumes "dbMovies a = dbMovies b" "dbError a = dbError b" "dbLoading a = dbLoading b"
    "totalPages a = totalPages b" "page a = page b" "searchTerm a = searchTerm b"
  shows "renderDbPanel a = renderDbPanel b"
  using assms by (simp add: renderDbPanel_def)

lemma renderImdbPanel_cong:
  assumes "imdbMovies a = imdbMovies b" "imdbError a = imdbError b" "imdbLoading a = imdbLoading b"
  shows "renderImdbPanel a = renderImdbPanel b"
  using assms by (simp add: renderImdbPanel_def)

lemma db_part_imdb_settle [simp]: "db_part (fetchFromIMDB_settle r s) = db_part s"
  by (simp add: db_part_def)

lemma imdb_part_db_settle [simp]: "imdb_part (fetchFromDB_settle r s) = imdb_part s"
  by (simp add: imdb_part_def)

lemma db_part_db_settle:
  "totalPages a = totalPages b \<Longrightarrow> db_part (fetchFromDB_settle r a) = db_part (fetchFromDB_settle r b)"
  by (cases r) (simp_all add: db_part_def fetchFromDB_settle_def)

lemma imdb_part_imdb_settle:
  "imdb_part (fetchFromIMDB_settle r a) = imdb_part (fetchFromIMDB_settle r b)"
  by (simp add: imdb_part_def fetchFromIMDB_settle_def split: outcome.splits ext_response.splits)

lemma db_part_db_settle_twice:
  "db_part (fetchFromDB_settle r (fetchFromDB_settle r s)) = db_part (fetchFromDB_settle r s)"
  by (cases r) (simp_all add: db_part_def fetchFromDB_settle_def)

lemma fold_db_part_last:
  assumes "\<forall>r. DbSettles r \<in> set es \<longrightarrow> r = reply"
  shows "db_part (fold settleA_step es s) =
           (if DbSettles reply \<in> set es then db_part (fetchFromDB_settle reply s) else db_part s)"
  using assms
proof (induction es arbitrary: s)
  case Nil
  then show ?case by simp
next
  case (Cons e es)
  then have rest: "\<forall>r. DbSettles r \<in> set es \<longrightarrow> r = reply" by simp
  show ?case
  proof (cases e)
    case (DbSettles r)
    with Cons.prems have r: "r = reply" by simp
    show ?thesis
      using Cons.IH [OF rest, of "fetchFromDB_settle reply s"] DbSettles r
      by (simp add: db_part_db_settle_twice)
  next
    case (ImdbSettles r)
    have "db_part (fetchFromDB_settle reply (fetchFromIMDB_settle r s)) =
            db_part (fetchFromDB_settle reply s)"
      by (rule db_part_db_settle) simp
    then show ?thesis
      using Cons.IH [OF rest, of "fetchFromIMDB_settle r s"] ImdbSettles
      by simp
  qed
qed

lemma fold_imdb_part_last:
  "(\<exists>r. ImdbSettles r \<in> set es \<and>
        imdb_part (fold settleA_step es s) = imdb_part (fetchFromIMDB_settle r s))
   \<or> ((\<forall>r. ImdbSettles r \<notin> set es) \<and> imdb_part (fold settleA_step es s) = imdb_part s)"
proof (induction es arbitrary: s)
  case Nil
  then show ?case by simp
next
  case (Cons e es)
  show ?case
  proof (cases e)
    case (DbSettles r)
    then show ?thesis
      using Cons.IH [of "fetchFromDB_settle r s"]
      by (auto simp add: imdb_part_imdb_settle [of _ "fetchFromDB_settle r s" s])
  next
    case (ImdbSettles r)
    then show ?thesis
      using Cons.IH [of "fetchFromIMDB_settle r s"]
      by (auto simp add: imdb_part_imdb_settle [of _ "fetchFromIMDB_settle r s" s])
  qed
qed

lemma submitA_db_panel:
  assumes "mset events = mset (submitA_pending srv r1 r2 r3 r4 st)"
  shows "db_part (submitA events st) =
           db_part (fetchFromDB_settle (getMovies srv (request_params (searchTerm st) 1)) st)"
proof -
  let ?reply = "getMovies srv (request_params (searchTerm st) 1)"
  have "set events = set (submitA_pending srv r1 r2 r3 r4 st)"
    using assms by (rule mset_eq_setD)
  then have same: "\<forall>r. DbSettles r \<in> set events \<longrightarrow> r = ?reply"
    and some: "DbSettles ?reply \<in> set events"
    by (auto simp add: submitA_pending_requests)
  have "db_part (submitA events st) = db_part (fetchFromDB_settle ?reply (submitA_begin st))"
    unfolding submitA_def using fold_db_part_last [OF same] some by simp
  also have "\<dots> = db_part (fetchFromDB_settle ?reply st)"
    by (rule db_part_db_settle) simp
  finally show ?thesis .
qed

lemma submitA_frame:
  "page (submitA events st) = 1 \<and> searchTerm (submitA events st) = searchTerm st"
  by (simp add: submitA_def)

lemma submitA_renderDbPanel:
  assumes "mset events = mset (submitA_pending srv r1 r2 r3 r4 st)"
  shows "renderDbPanel (submitA events st) =
           renderDbPanel (fetchFromDB_settle
             (getMovies srv \<lparr>param_page = 1,
                param_search = (if searchTerm st \<noteq> [] then Some (searchTerm st) else None)\<rparr>)
             (st\<lparr>page := 1\<rparr>))"
proof -
  have "db_part (submitA events st) =
          db_part (fetchFromDB_settle (getMovies srv (request_params (searchTerm st) 1))
            (st\<lparr>page := 1\<rparr>))"
    using submitA_db_panel [OF assms] db_part_db_settle [of st "st\<lparr>page := 1\<rparr>"] by simp
  then show ?thesis
    unfolding request_params_page_1 [symmetric]
    by (intro renderDbPanel_cong) (simp_all add: db_part_def submitA_frame)
qed

lemma submitA_db_reply:
  assumes "mset events = mset (submitA_pending srv r1 r2 r3 r4 st)"
  shows "getMovies srv \<lparr>param_page = 1,
            param_search = (if searchTerm st \<noteq> [] then Some (searchTerm st) else None)\<rparr> =
           Resolves response \<longrightarrow>
         dbMovies (submitA events st) = results response
         \<and> totalPages (submitA events st) = calcTotalPages (count response)
         \<and> dbError (submitA events st) = []
         \<and> \<not> dbLoading (submitA events st)"
  using submitA_db_panel [OF assms]
  unfolding request_params_page_1 [symmetric]
  by (auto simp add: db_part_def fetchFromDB_settle_def)

lemma submitA_db_throw:
  assumes "mset events = mset (submitA_pending srv r1 r2 r3 r4 st)"
  shows "getMovies srv \<lparr>param_page = 1,
            param_search = (if searchTerm st \<noteq> [] then Some (searchTerm st) else None)\<rparr> =
           Throws \<longrightarrow>
         dbMovies (submitA events st) = []
         \<and> dbError (submitA events st) = ''Failed to load movies from database''
         \<and> \<not> dbLoading (submitA events st)"
  using submitA_db_panel [OF assms]
  unfolding request_params_page_1 [symmetric]
  by (auto simp add: db_part_def fetchFromDB_settle_def)

lemma submitA_renderImdbPanel:
  assumes "mset events = mset (submitA_pending srv r1 r2 r3 r4 st)"
  shows "renderImdbPanel (submitA events st) =
           renderImdbPanel (fetchFromIMDB_settle
             (searchMovies srv (imdb_query (searchTerm st) r1 r2)) st)
         \<or> (page st \<noteq> 1 \<and>
            renderImdbPanel (submitA events st) =
              renderImdbPanel (fetchFromIMDB_settle
                (searchMovies srv (imdb_query (searchTerm st) r3 r4)) st))"
proof -
  have s: "set events = set (submitA_pending srv r1 r2 r3 r4 st)"
    using assms by (rule mset_eq_setD)
  then have "ImdbSettles (searchMovies srv (imdb_query (searchTerm st) r1 r2)) \<in> set events"
    by (simp add: submitA_pending_requests)
  with fold_imdb_part_last [of events "submitA_begin st"]
  obtain r where r: "ImdbSettles r \<in> set events"
    "imdb_part (submitA events st) = imdb_part (fetchFromIMDB_settle r (submitA_begin st))"
    unfolding submitA_def by blast
  have part: "imdb_part (submitA events st) = imdb_part (fetchFromIMDB_settle r st)"
    using r(2) imdb_part_imdb_settle [of r "submitA_begin st" st] by simp
  have render: "renderImdbPanel (submitA events st) = renderImdbPanel (fetchFromIMDB_settle r st)"
    using part by (intro renderImdbPanel_cong) (simp_all add: imdb_part_def)
  from r(1) s have "r = searchMovies srv (imdb_query (searchTerm st) r1 r2)
      \<or> (page st \<noteq> 1 \<and> r = searchMovies srv (imdb_query (searchTerm st) r3 r4))"
    by (auto simp add: submitA_pending_requests split: if_splits)
  with render show ?thesis by auto
qed

lemma submitA_renderImdbPanel_search:
  assumes "mset events = mset (submitA_pending srv r1 r2 r3 r4 st)"
  shows "searchTerm st \<noteq> [] \<longrightarrow>
         renderImdbPanel (submitA events st) =
           renderImdbPanel (fetchFromIMDB_settle (searchMovies srv (Some (searchTerm st))) st)"
  using submitA_renderImdbPanel [OF assms] by (auto simp add: imdb_query_def)

lemma submitA_pending_same_replies:
  "getMovies srv' \<lparr>param_page = 1,
      param_search = (if searchTerm st \<noteq> [] then Some (searchTerm st) else None)\<rparr> =
   getMovies srv \<lparr>param_page = 1,
      param_search = (if searchTerm st \<noteq> [] then Some (searchTerm st) else None)\<rparr>
   \<and> searchMovies srv' (imdb_query (searchTerm st) r1 r2) =
       searchMovies srv (imdb_query (searchTerm st) r1 r2)
   \<and> searchMovies srv' (imdb_query (searchTerm st) r3 r4) =
       searchMovies srv (imdb_query (searchTerm st) r3 r4) \<longrightarrow>
   submitA_pending srv' r1 r2 r3 r4 st = submitA_pending srv r1 r2 r3 r4 st"
  unfolding request_params_page_1 [symmetric]
  by (simp add: submitA_pending_requests)

lemma submitA_pending_page_1:
  "submitA_pending srv r1 r2 r3 r4 st =
     [DbSettles (getMovies srv \<lparr>param_page = 1,
        param_search = (if searchTerm st \<noteq> [] then Some (searchTerm st) else None)\<rparr>),
      ImdbSettles (searchMovies srv (imdb_query (searchTerm st) r1 r2))] @
     (if page st \<noteq> 1 then
        [DbSettles (getMovies srv \<lparr>param_page = 1,
           param_search = (if searchTerm st \<noteq> [] then Some (searchTerm st) else None)\<rparr>),
         ImdbSettles (searchMovies srv (imdb_query (searchTerm st) r3 r4))]
      else [])"
  unfolding request_params_page_1 [symmetric]
  by (rule submitA_pending_requests)

lemma handleSearchB_frame [simp]:
  "page (handleSearchB st) = 1"
  "searchTerm (handleSearchB st) = searchTerm st"
  by (simp_all add: handleSearchB_def fetchMoviesB_begin_def)

lemma fetchMoviesB_finish_frame [simp]:
  "page (fetchMoviesB_finish srv q reply st) = page st"
  "searchTerm (fetchMoviesB_finish srv q reply st) = searchTerm st"
  by (simp_all add: fetchMoviesB_finish_def split: outcome.splits ext_response.splits)

lemma submitB_frame:
  "page (submitB srv st) = 1 \<and> searchTerm (submitB srv st) = searchTerm st"
  by (simp add: submitB_def Let_def pageEffectB_def fetchMoviesB_begin_def)

lemma submitB_one_refresh:
  "page st = 1 \<longrightarrow> submitB srv st = fetchMoviesB srv (searchTerm st) 1 st"
proof
  assume p: "page st = 1"
  have "st\<lparr>page := page st\<rparr> = st" by simp
  with p have same: "st\<lparr>page := 1\<rparr> = st" by simp
  show "submitB srv st = fetchMoviesB srv (searchTerm st) 1 st"
    using p by (simp add: submitB_def Let_def pageEffectB_def fetchMoviesB_split
        handleSearchB_def same fetchMoviesB_begin_def)
qed

lemma submitB_two_refreshes:
  "page st \<noteq> 1 \<longrightarrow>
   submitB srv st =
     fetchMoviesB srv (searchTerm st) 1 (fetchMoviesB srv (searchTerm st) 1 (st\<lparr>page := 1\<rparr>))"
  by (cases "getMovies srv (request_params (searchTerm st) 1)";
      cases "searchIMDB srv (searchTerm st)")
     (auto simp add: submitB_def Let_def pageEffectB_def fetchMoviesB_def handleSearchB_def
        fetchMoviesB_begin_def fetchMoviesB_finish_def split: ext_response.splits)

lemma fetchMoviesB_finish_Throws:
  "fetchMoviesB_finish srv q Throws st =
     st\<lparr>error := ''Failed to load movies'', console := console st @ [[]], loading := False\<rparr>"
  by (simp add: fetchMoviesB_finish_def)

lemma fetchMoviesB_finish_db:
  "q = [] \<or> results response \<noteq> [] \<Longrightarrow>
   fetchMoviesB_finish srv q (Resolves response) st =
     st\<lparr>movies := results response, searchSource := Some Db,
        totalPages := calcTotalPages (count response), error := [], loading := False\<rparr>"
  by (auto simp add: fetchMoviesB_finish_def)

lemma submitB_unfold:
  "submitB srv st =
     (if page st \<noteq> 1 then
        fetchMoviesB_finish srv (searchTerm st) (getMovies srv (request_params (searchTerm st) 1))
          (fetchMoviesB_finish srv (searchTerm st)
             (getMovies srv (request_params (searchTerm st) 1))
             (fetchMoviesB_begin (fetchMoviesB_begin (st\<lparr>page := 1\<rparr>))))
      else
        fetchMoviesB_finish srv (searchTerm st) (getMovies srv (request_params (searchTerm st) 1))
          (fetchMoviesB_begin (st\<lparr>page := 1\<rparr>)))"
  unfolding submitB_def Let_def pageEffectB_def handleSearchB_frame
  by (simp add: handleSearchB_def)

lemma submitB_db_reply:
  "getMovies srv \<lparr>param_page = 1,
      param_search = (if searchTerm st \<noteq> [] then Some (searchTerm st) else None)\<rparr> =
     Resolves response
   \<and> (searchTerm st = [] \<or> results response \<noteq> []) \<longrightarrow>
   movies (submitB srv st) = results response
   \<and> totalPages (submitB srv st) = calcTotalPages (count response)
   \<and> searchSource (submitB srv st) = Some Db
   \<and> error (submitB srv st) = []
   \<and> \<not> loading (submitB srv st)"
proof
  assume h: "getMovies srv \<lparr>param_page = 1,
      param_search = (if searchTerm st \<noteq> [] then Some (searchTerm st) else None)\<rparr> =
     Resolves response
   \<and> (searchTerm st = [] \<or> results response \<noteq> [])"
  then have r: "getMovies srv (request_params (searchTerm st) 1) = Resolves response"
    by (simp add: request_params_page_1)
  from h have c: "searchTerm st = [] \<or> results response \<noteq> []" by simp
  show "movies (submitB srv st) = results response
   \<and> totalPages (submitB srv st) = calcTotalPages (count response)
   \<and> searchSource (submitB srv st) = Some Db
   \<and> error (submitB srv st) = []
   \<and> \<not> loading (submitB srv st)"
    unfolding submitB_unfold r by (simp add: fetchMoviesB_finish_db [OF c])
qed


lemma submitB_db_throw:
  "getMovies srv \<lparr>param_page = 1,
      param_search = (if searchTerm st \<noteq> [] then Some (searchTerm st) else None)\<rparr> = Throws \<longrightarrow>
   error (submitB srv st) = ''Failed to load movies''
   \<and> movies (submitB srv st) = movies st
   \<and> console (submitB srv st) = console st @ (if page st \<noteq> 1 then [[], []] else [[]])"
proof
  assume "getMovies srv \<lparr>param_page = 1,
      param_search = (if searchTerm st \<noteq> [] then Some (searchTerm st) else None)\<rparr> = Throws"
  then have r: "getMovies srv (request_params (searchTerm st) 1) = Throws"
    by (simp add: request_params_page_1)
  show "error (submitB srv st) = ''Failed to load movies''
   \<and> movies (submitB srv st) = movies st
   \<and> console (submitB srv st) = console st @ (if page st \<noteq> 1 then [[], []] else [[]])"
    unfolding submitB_unfold r
    by (simp add: fetchMoviesB_finish_Throws fetchMoviesB_begin_def)
qed

lemma fetchMoviesB_finish_same_replies:
  assumes "searchIMDB srv' q = searchIMDB srv q"
  shows "fetchMoviesB_finish srv' q reply st = fetchMoviesB_finish srv q reply st"
  unfolding fetchMoviesB_finish_def assms by (rule refl)

lemma submitB_same_replies:
  "getMovies srv' \<lparr>param_page = 1,
      param_search = (if searchTerm st \<noteq> [] then Some (searchTerm st) else None)\<rparr> =
   getMovies srv \<lparr>param_page = 1,
      param_search = (if searchTerm st \<noteq> [] then Some (searchTerm st) else None)\<rparr>
   \<and> searchIMDB srv' (searchTerm st) = searchIMDB srv (searchTerm st) \<longrightarrow>
   submitB srv' st = submitB srv st"
proof
  assume h: "getMovies srv' \<lparr>param_page = 1,
      param_search = (if searchTerm st \<noteq> [] then Some (searchTerm st) else None)\<rparr> =
   getMovies srv \<lparr>param_page = 1,
      param_search = (if searchTerm st \<noteq> [] then Some (searchTerm st) else None)\<rparr>
   \<and> searchIMDB srv' (searchTerm st) = searchIMDB srv (searchTerm st)"
  then have g: "getMovies srv' (request_params (searchTerm st) 1) =
      getMovies srv (request_params (searchTerm st) 1)"
    by (simp add: request_params_page_1)
  from h have i: "searchIMDB srv' (searchTerm st) = searchIMDB srv (searchTerm st)" by simp
  show "submitB srv' st = submitB srv st"
    unfolding submitB_unfold g fetchMoviesB_finish_same_replies [OF i] by (rule refl)
qed

lemma renderB_cong:
  assumes "movies a = movies b" "loading a = loading b" "error a = error b"
    "searchSource a = searchSource b" "totalPages a = totalPages b" "page a = page b"
    "searchTerm a = searchTerm b"
  shows "renderB a = renderB b"
  unfolding renderB_def assms by (rule refl)

lemma fetchMoviesB_finish_imdb:
  "q \<noteq> [] \<Longrightarrow> results response = [] \<Longrightarrow> searchIMDB srv q = Resolves (Has_list xs) \<Longrightarrow>
   xs \<noteq> [] \<Longrightarrow>
   fetchMoviesB_finish srv q (Resolves response) st =
     st\<lparr>movies := xs, searchSource := Some Imdb, totalPages := 1, error := [],
        loading := False\<rparr>"
  by (simp add: fetchMoviesB_finish_def)

lemma fetchMoviesB_finish_empty:
  "q \<noteq> [] \<Longrightarrow> results response = [] \<Longrightarrow>
   searchIMDB srv q = Resolves No_data \<or> searchIMDB srv q = Resolves No_list
     \<or> searchIMDB srv q = Resolves (Has_list []) \<Longrightarrow>
   fetchMoviesB_finish srv q (Resolves response) st =
     st\<lparr>movies := [], searchSource := Some Db, error := [], loading := False\<rparr>"
  by (auto simp add: fetchMoviesB_finish_def)

lemma fetchMoviesB_finish_imdb_throws:
  "q \<noteq> [] \<Longrightarrow> results response = [] \<Longrightarrow> searchIMDB srv q = Throws \<Longrightarrow>
   fetchMoviesB_finish srv q (Resolves response) st =
     st\<lparr>console := console st @ [''IMDB search failed:''], movies := [],
        searchSource := Some Db, error := [], loading := False\<rparr>"
  by (simp add: fetchMoviesB_finish_def)

lemma fetchMoviesB_finish_twice:
  "renderB (fetchMoviesB_finish srv q reply (fetchMoviesB_finish srv q reply s)) =
     renderB (fetchMoviesB_finish srv q reply s)"
proof (cases reply)
  case Throws
  show ?thesis
    unfolding Throws fetchMoviesB_finish_Throws by (rule renderB_cong) simp_all
next
  case (Resolves response)
  consider (db) "q = [] \<or> results response \<noteq> []"
    | (imdb) xs where "q \<noteq> []" "results response = []"
        "searchIMDB srv q = Resolves (Has_list xs)" "xs \<noteq> []"
    | (empty) "q \<noteq> []" "results response = []"
        "searchIMDB srv q = Resolves No_data \<or> searchIMDB srv q = Resolves No_list
           \<or> searchIMDB srv q = Resolves (Has_list [])"
    | (throws) "q \<noteq> []" "results response = []" "searchIMDB srv q = Throws"
  proof (cases "q = [] \<or> results response \<noteq> []")
    case True
    then show ?thesis by (rule db)
  next
    case False
    then have q: "q \<noteq> []" "results response = []" by simp_all
    show ?thesis
    proof (cases "searchIMDB srv q")
      case Throws
      with q show ?thesis by (rule throws)
    next
      case outer: (Resolves ext)
      show ?thesis
      proof (cases ext)
        case No_data
        with q outer show ?thesis by (intro empty) simp_all
      next
        case No_list
        with q outer show ?thesis by (intro empty) simp_all
      next
        case (Has_list xs)
        show ?thesis
        proof (cases "xs = []")
          case True
          with q outer Has_list show ?thesis by (intro empty) simp_all
        next
          case False
          with q outer Has_list show ?thesis by (intro imdb [of xs]) simp_all
        qed
      qed
    qed
  qed
  then show ?thesis
  proof cases
    case db
    show ?thesis
      unfolding Resolves fetchMoviesB_finish_db [OF db] by (rule renderB_cong) simp_all
  next
    case imdb
    show ?thesis
      unfolding Resolves fetchMoviesB_finish_imdb [OF imdb] by (rule renderB_cong) simp_all
  next
    case empty
    show ?thesis
      unfolding Resolves fetchMoviesB_finish_empty [OF empty] by (rule renderB_cong) simp_all
  next
    case throws
    show ?thesis
      unfolding Resolves fetchMoviesB_finish_imdb_throws [OF throws]
      by (rule renderB_cong) simp_all
  qed
qed

lemma fetchMoviesB_begin_twice: "fetchMoviesB_begin (fetchMoviesB_begin s) = fetchMoviesB_begin s"
  by (simp add: fetchMoviesB_begin_def)

lemma submitB_render:
  "renderB (submitB srv st) =
     renderB (fetchMoviesB srv (searchTerm st) 1 (st\<lparr>page := 1\<rparr>))"
  unfolding submitB_unfold fetchMoviesB_split fetchMoviesB_begin_twice
  by (simp add: fetchMoviesB_finish_twice)









lemma fetchFromDB_settle_after_begin:
  "fetchFromDB_settle c (fetchMoviesA_begin s) = (fetchFromDB_settle c s)\<lparr>imdbLoading := True\<rparr>"
  by (cases c) (simp_all add: fetchFromDB_settle_def fetchMoviesA_begin_def
      fetchFromDB_start_def fetchFromIMDB_start_def)

lemma fetchFromIMDB_settle_loading:
  "fetchFromIMDB_settle d (s\<lparr>imdbLoading := b\<rparr>) = fetchFromIMDB_settle d s"
  by (simp add: fetchFromIMDB_settle_def split: outcome.splits ext_response.splits)

lemma fetchMoviesA_begin_twice:
  "fetchMoviesA_begin (fetchMoviesA_begin s) = fetchMoviesA_begin s"
  by (simp add: fetchMoviesA_begin_def fetchFromDB_start_def fetchFromIMDB_start_def)

lemma refresh_after_refresh:
  "fetchFromIMDB_settle d (fetchFromDB_settle c
     (fetchMoviesA_begin (fetchFromIMDB_settle b (fetchFromDB_settle a s)))) =
   fetchFromIMDB_settle d (fetchFromDB_settle c
     (fetchFromIMDB_settle b (fetchFromDB_settle a s)))"
  by (simp add: fetchFromDB_settle_after_begin fetchFromIMDB_settle_loading)

lemma submitA_in_order:
  "submitA (submitA_pending srv r1 r2 r3 r4 st) st =
     (if page st \<noteq> 1 then
        fetchMoviesA srv r3 r4 True (searchTerm st) 1
          (fetchMoviesA srv r1 r2 True (searchTerm st) 1 (st\<lparr>page := 1\<rparr>))
      else fetchMoviesA srv r1 r2 True (searchTerm st) 1 (st\<lparr>page := 1\<rparr>))"
  by (simp add: submitA_def submitA_pending_requests submitA_begin_def pageEffectA_def
        handleSearchA_def fetchMoviesA_split fetchMoviesA_pending_def refresh_after_refresh
        fetchMoviesA_begin_twice)

subsection \<open>Page count\<close>

text \<open>
  Claim C1, as stated, fails: a local response with total count 0 leaves the total
  page count at \<open>\<lceil>0 / 10\<rceil> = 0\<close>, below 1, in variant A and in variant B alike.
\<close>

theorem total_pages_zero_count_counterexample:
  "\<not> 1 \<le> totalPages (fetchFromDB_settle (Resolves \<lparr>results = [], count = 0\<rparr>) initialA) \<and>
   \<not> 1 \<le> totalPages (fetchMoviesB
       \<lparr>getMovies = always (Resolves \<lparr>results = [], count = 0\<rparr>),
        searchMovies = always Throws, searchIMDB = always Throws\<rparr> [] 1 initialB)"
  by (simp add: fetchMoviesB_def always_def calcTotalPages_div)

text \<open>
  Claim C1, amended: when the local fetch resolves with total count \<open>C\<close>, the total page
  count becomes \<open>\<lceil>C / 10\<rceil>\<close>: after \<^const>\<open>fetchFromDB_settle\<close> and after the whole
  refresh of variant A (whichever request settles first), and in variant B whenever the
  local results are displayed (empty search text, or a non-empty result list). For
  \<open>C \<ge> 0\<close> that count is at least 1 exactly when \<open>C \<ge> 1\<close>; a zero total count gives 0 pages.
\<close>

theorem total_pages_after_db_fetch:
  "totalPages (fetchFromDB_settle (Resolves response) st) = \<lceil>real_of_int (count response) / 10\<rceil>
   \<and> (getMovies srv (request_params searchQuery pageNum) = Resolves response \<longrightarrow>
        totalPages (fetchMoviesA srv r1 r2 db_first searchQuery pageNum st) =
          \<lceil>real_of_int (count response) / 10\<rceil>)
   \<and> (getMovies srv (request_params searchQuery pageNum) = Resolves response \<and>
        (searchQuery = [] \<or> results response \<noteq> []) \<longrightarrow>
        totalPages (fetchMoviesB srv searchQuery pageNum stB) =
          \<lceil>real_of_int (count response) / 10\<rceil>)
   \<and> (0 \<le> C \<longrightarrow> (1 \<le> calcTotalPages C \<longleftrightarrow> 1 \<le> C))
   \<and> calcTotalPages 0 = 0"
proof (intro conjI impI)
  show "totalPages (fetchFromDB_settle (Resolves response) st) =
          \<lceil>real_of_int (count response) / 10\<rceil>"
    by (simp add: calcTotalPages_ceiling)
next
  assume "getMovies srv (request_params searchQuery pageNum) = Resolves response"
  then show "totalPages (fetchMoviesA srv r1 r2 db_first searchQuery pageNum st) =
          \<lceil>real_of_int (count response) / 10\<rceil>"
    by (simp add: fetchMoviesA_def Let_def calcTotalPages_ceiling)
next
  assume "getMovies srv (request_params searchQuery pageNum) = Resolves response \<and>
        (searchQuery = [] \<or> results response \<noteq> [])"
  then show "totalPages (fetchMoviesB srv searchQuery pageNum stB) =
          \<lceil>real_of_int (count response) / 10\<rceil>"
    by (auto simp add: fetchMoviesB_def Let_def calcTotalPages_ceiling)
next
  assume "0 \<le> C"
  show "(1 \<le> calcTotalPages C) = (1 \<le> C)"
    unfolding calcTotalPages_div by presburger
next
  show "calcTotalPages 0 = 0"
    by (simp add: calcTotalPages_div)
qed

theorem total_pages_after_db_fetch_witness:
  "totalPages (fetchMoviesA
       \<lparr>getMovies = always (Resolves \<lparr>results = [], count = 25\<rparr>),
        searchMovies = always Throws, searchIMDB = always Throws\<rparr> 0 0 True [] 1 initialA) = 3
   \<and> totalPages (fetchMoviesB
       \<lparr>getMovies = always (Resolves \<lparr>results = [], count = 25\<rparr>),
        searchMovies = always Throws, searchIMDB = always Throws\<rparr> [] 1 initialB) = 3
   \<and> (0::int) \<le> 25 \<and> 1 \<le> calcTotalPages 25"
  using total_pages_after_db_fetch [of "\<lparr>results = [], count = 25\<rparr>" initialA
      "\<lparr>getMovies = always (Resolves \<lparr>results = [], count = 25\<rparr>),
        searchMovies = always Throws, searchIMDB = always Throws\<rparr>" "[]" 1 0 0 True initialB 25]
  by (simp add: always_def)

subsection \<open>Cards\<close>

text \<open>
  Claim C5: on every card, of either variant and either source, the description
  paragraph shows the first truthy of \<^verbatim>\<open>description\<close> and \<^verbatim>\<open>Plot\<close>: in full when its
  length is at most 150 (so also at exactly 150), and cut to its first 150 characters
  followed by \<open>...\<close> when it is longer; when neither field is truthy it shows the
  placeholder \<open>No description available\<close>.
\<close>

theorem card_description_truncation:
  "(description m = Some d \<and> d \<noteq> [] \<longrightarrow>
      description_text (renderMovieCard m b) =
        (if length d \<le> 150 then d else take 150 d @ ''...''))
  \<and> ((description m = None \<or> description m = Some []) \<and> Plot m = Some p \<and> p \<noteq> [] \<longrightarrow>
      description_text (renderMovieCard m b) =
        (if length p \<le> 150 then p else take 150 p @ ''...''))
  \<and> ((description m = None \<or> description m = Some []) \<and> (Plot m = None \<or> Plot m = Some []) \<longrightarrow>
      description_text (renderMovieCard m b) = ''No description available'')"
  by (auto simp: renderMovieCard_def description_paragraph_def truthy_def)

theorem card_description_truncation_witness:
  "description_text (renderMovieCard
      \<lparr>movie_id = Some 1, description = Some (replicate 150 CHR ''a''), Plot = None,
       ratings_count = 0\<rparr> False)
     = replicate 150 CHR ''a''
   \<and> description_text (renderMovieCard
      \<lparr>movie_id = None, description = None, Plot = Some (replicate 151 CHR ''a''),
       ratings_count = 0\<rparr> True)
     = replicate 150 CHR ''a'' @ ''...''
   \<and> description_text (renderMovieCard
      \<lparr>movie_id = Some 1, description = Some [], Plot = None, ratings_count = 0\<rparr> False)
     = ''No description available''"
  using card_description_truncation [of
      "\<lparr>movie_id = Some 1, description = Some (replicate 150 CHR ''a''), Plot = None,
        ratings_count = 0\<rparr>"
      "replicate 150 CHR ''a''" False]
    card_description_truncation [of
      "\<lparr>movie_id = None, description = None, Plot = Some (replicate 151 CHR ''a''),
        ratings_count = 0\<rparr>"
      _ True "replicate 151 CHR ''a''"]
    card_description_truncation [of
      "\<lparr>movie_id = Some 1, description = Some [], Plot = None, ratings_count = 0\<rparr>" _ False]
  by simp

text \<open>
  Claim C9: on every card rendered for a local movie, the ratings-count label ends in
  the singular noun exactly when \<^verbatim>\<open>ratings_count\<close> is 1, where it reads \<open>(1 rating)\<close>;
  for every other count, 0 included, it is the count followed by \<open>ratings\<close>.
\<close>

theorem rating_count_noun:
  "((\<exists>pre. rating_count (renderMovieCard m False) = Some (pre @ '' rating)''))
      \<longleftrightarrow> ratings_count m = 1)
   \<and> (ratings_count m = 1 \<longrightarrow>
        rating_count (renderMovieCard m False) = Some ''(1 rating)'')
   \<and> (ratings_count m \<noteq> 1 \<longrightarrow>
        rating_count (renderMovieCard m False) =
          Some (''('' @ string_of_number (ratings_count m) @ '' ratings)''))
   \<and> (ratings_count m = 0 \<longrightarrow>
        rating_count (renderMovieCard m False) = Some ''(0 ratings)'')"
  by (auto simp: renderMovieCard_def rating_count_span_def string_of_number_def
        string_of_nat.simps digit_char_def)

theorem rating_count_noun_witness:
  "rating_count (renderMovieCard
      \<lparr>movie_id = Some 1, description = None, Plot = None, ratings_count = 1\<rparr> False)
     = Some ''(1 rating)''
   \<and> rating_count (renderMovieCard
      \<lparr>movie_id = Some 1, description = None, Plot = None, ratings_count = 0\<rparr> False)
     = Some ''(0 ratings)''
   \<and> rating_count (renderMovieCard
      \<lparr>movie_id = Some 1, description = None, Plot = None, ratings_count = 12\<rparr> False)
     = Some ''(12 ratings)''"
  using rating_count_noun [of
      "\<lparr>movie_id = Some 1, description = None, Plot = None, ratings_count = 1\<rparr>"]
    rating_count_noun [of
      "\<lparr>movie_id = Some 1, description = None, Plot = None, ratings_count = 0\<rparr>"]
    rating_count_noun [of
      "\<lparr>movie_id = Some 1, description = None, Plot = None, ratings_count = 12\<rparr>"]
  by (simp add: string_of_number_def string_of_nat.simps digit_char_def)

subsection \<open>Variant B: fallback and failure\<close>

text \<open>
  Claim C2: in variant B, take a fetch with a non-empty search query to which the local
  API answers with an empty result list. If the external search resolves with a
  non-empty list, that list is displayed as IMDB cards, the provenance is \<open>imdb\<close>, the
  total page count is set to 1, and the view consists of the information banner and the
  grid only (no pagination, no error). If the external search resolves without data,
  without a list or with an empty list, or if it throws, the displayed list is empty, the
  provenance is \<open>db\<close>, the error text is empty, and neither a banner nor an error
  message is rendered: the view is the empty grid and the no-results message; a thrown
  external error only adds a console entry.
\<close>

theorem fallback_fetch_outcomes:
  assumes "searchQuery \<noteq> []"
    and "getMovies srv (request_params searchQuery pageNum) = Resolves response"
    and "results response = []"
  shows "(searchIMDB srv searchQuery = Resolves (Has_list xs) \<and> xs \<noteq> [] \<longrightarrow>
            movies (fetchMoviesB srv searchQuery pageNum st) = xs
          \<and> searchSource (fetchMoviesB srv searchQuery pageNum st) = Some Imdb
          \<and> totalPages (fetchMoviesB srv searchQuery pageNum st) = 1
          \<and> error (fetchMoviesB srv searchQuery pageNum st) = []
          \<and> renderB (fetchMoviesB srv searchQuery pageNum st) =
              [SearchInfo ''Showing results from IMDB. No matches found in our database.'',
               MovieGrid (map (\<lambda>m. renderMovieCard m True) xs)])
       \<and> (searchIMDB srv searchQuery = Resolves No_data
            \<or> searchIMDB srv searchQuery = Resolves No_list
            \<or> searchIMDB srv searchQuery = Resolves (Has_list [])
            \<or> searchIMDB srv searchQuery = Throws \<longrightarrow>
            movies (fetchMoviesB srv searchQuery pageNum st) = []
          \<and> searchSource (fetchMoviesB srv searchQuery pageNum st) = Some Db
          \<and> error (fetchMoviesB srv searchQuery pageNum st) = []
          \<and> \<not> list_ex is_search_info (renderB (fetchMoviesB srv searchQuery pageNum st))
          \<and> \<not> list_ex is_error_message (renderB (fetchMoviesB srv searchQuery pageNum st))
          \<and> renderB (fetchMoviesB srv searchQuery pageNum st) =
              [MovieGrid [],
               NoMovies (''No movies found. '' @
                 (if searchTerm st \<noteq> [] then ''Try a different search term or '' else []) @
                 ''add a new movie.'')] @
              (if totalPages st > 1 then
                 [Pagination (page st) (totalPages st) (page st = 1) (page st = totalPages st)]
               else []))
       \<and> (searchIMDB srv searchQuery = Throws \<longrightarrow>
            console (fetchMoviesB srv searchQuery pageNum st) =
              console st @ [''IMDB search failed:''])"
  using assms
  by (auto simp add: fetchMoviesB_def renderB_def Let_def)

theorem fallback_fetch_outcomes_witness:
  "renderB (fetchMoviesB
       \<lparr>getMovies = always (Resolves \<lparr>results = [], count = 0\<rparr>),
        searchMovies = always Throws,
        searchIMDB = always (Resolves (Has_list
          [\<lparr>movie_id = None, description = None, Plot = Some ''A plot'', ratings_count = 0\<rparr>]))\<rparr>
       ''zzzqqq'' 1 (initialB\<lparr>searchTerm := ''zzzqqq''\<rparr>)) =
     [SearchInfo ''Showing results from IMDB. No matches found in our database.'',
      MovieGrid [\<lparr>imdb_badge = True, description_text = ''A plot'', rating_count = None,
                  details_link = None\<rparr>]]
   \<and> renderB (fetchMoviesB
       \<lparr>getMovies = always (Resolves \<lparr>results = [], count = 0\<rparr>),
        searchMovies = always Throws,
        searchIMDB = always Throws\<rparr>
       ''zzzqqq'' 1 (initialB\<lparr>searchTerm := ''zzzqqq''\<rparr>)) =
     [MovieGrid [],
      NoMovies ''No movies found. Try a different search term or add a new movie.'']"
proof -
  let ?m = "\<lparr>movie_id = None, description = None, Plot = Some ''A plot'', ratings_count = 0\<rparr>"
  let ?db = "always (Resolves \<lparr>results = [], count = 0\<rparr>) :: params \<Rightarrow> db_data outcome"
  let ?s1 = "\<lparr>getMovies = ?db, searchMovies = always Throws,
              searchIMDB = always (Resolves (Has_list [?m]))\<rparr>"
  let ?s2 = "\<lparr>getMovies = ?db, searchMovies = always Throws, searchIMDB = always Throws\<rparr>"
  have q: "''zzzqqq'' \<noteq> []" by simp
  have d1: "getMovies ?s1 (request_params ''zzzqqq'' 1) = Resolves \<lparr>results = [], count = 0\<rparr>"
    by (simp add: always_def)
  have d2: "getMovies ?s2 (request_params ''zzzqqq'' 1) = Resolves \<lparr>results = [], count = 0\<rparr>"
    by (simp add: always_def)
  have e: "results \<lparr>results = [], count = 0\<rparr> = []" by simp
  show ?thesis
    using fallback_fetch_outcomes [OF q d1 e, of "[?m]" "initialB\<lparr>searchTerm := ''zzzqqq''\<rparr>"]
      fallback_fetch_outcomes [OF q d2 e, of "[]" "initialB\<lparr>searchTerm := ''zzzqqq''\<rparr>"]
    by (simp add: always_def initialB_def renderMovieCard_def description_paragraph_def truthy_def)
qed



subsection \<open>Variant A: the two panels\<close>

text \<open>
  Claim C3, as stated, fails: when the external response has no \<^verbatim>\<open>data\<close>, or
  \<^verbatim>\<open>data\<close> without a \<^verbatim>\<open>description\<close> list, the external panel renders no error
  message.
\<close>

theorem external_panel_malformed_counterexample:
  "\<not> list_ex is_error_message
       (renderImdbPanel (fetchFromIMDB_settle (Resolves No_data) (fetchFromIMDB_start initialA)))
   \<and> \<not> list_ex is_error_message
       (renderImdbPanel (fetchMoviesA
          \<lparr>getMovies = always (Resolves \<lparr>results = [], count = 0\<rparr>),
           searchMovies = always (Resolves No_list), searchIMDB = always Throws\<rparr>
          0 0 True ''war'' 1 initialA))"
  by (simp add: renderImdbPanel_fetchMoviesA renderImdbPanel_settle_Resolves always_def)

text \<open>
  Claim C3, amended: in variant A, after a refresh whose external response has a
  malformed or missing shape, the external panel shows an empty grid with the
  no-results message and no error message; after a refresh whose external fetch throws,
  it shows an empty grid together with the error message. The external panel never
  renders pagination controls, and settling the external fetch changes neither the page
  nor the total page count.
\<close>

theorem external_panel_failure_rendering:
  "(searchMovies srv (imdb_query searchQuery r1 r2) = Resolves No_data
      \<or> searchMovies srv (imdb_query searchQuery r1 r2) = Resolves No_list \<longrightarrow>
      renderImdbPanel (fetchMoviesA srv r1 r2 db_first searchQuery pageNum st) =
        [MovieGrid [], NoMovies ''No movies found from IMDB.''])
   \<and> (searchMovies srv (imdb_query searchQuery r1 r2) = Throws \<longrightarrow>
      renderImdbPanel (fetchMoviesA srv r1 r2 db_first searchQuery pageNum st) =
        [ErrorMessage ''Failed to load movies from IMDB'', MovieGrid []])
   \<and> \<not> list_ex is_pagination (renderImdbPanel st)
   \<and> page (fetchFromIMDB_settle reply st) = page st
   \<and> totalPages (fetchFromIMDB_settle reply st) = totalPages st"
proof (intro conjI impI)
  assume "searchMovies srv (imdb_query searchQuery r1 r2) = Resolves No_data
      \<or> searchMovies srv (imdb_query searchQuery r1 r2) = Resolves No_list"
  then show "renderImdbPanel (fetchMoviesA srv r1 r2 db_first searchQuery pageNum st) =
        [MovieGrid [], NoMovies ''No movies found from IMDB.'']"
    by (auto simp add: renderImdbPanel_fetchMoviesA renderImdbPanel_settle_Resolves)
next
  assume "searchMovies srv (imdb_query searchQuery r1 r2) = Throws"
  then show "renderImdbPanel (fetchMoviesA srv r1 r2 db_first searchQuery pageNum st) =
        [ErrorMessage ''Failed to load movies from IMDB'', MovieGrid []]"
    by (simp add: renderImdbPanel_fetchMoviesA renderImdbPanel_settle_Throws)
next
  show "\<not> list_ex is_pagination (renderImdbPanel st)"
    by (simp add: renderImdbPanel_def)
qed simp_all

theorem external_panel_failure_rendering_witness:
  "renderImdbPanel (fetchMoviesA
      \<lparr>getMovies = always (Resolves \<lparr>results = [], count = 0\<rparr>),
       searchMovies = always (Resolves No_data), searchIMDB = always Throws\<rparr>
      0 0 True ''war'' 1 initialA) =
     [MovieGrid [], NoMovies ''No movies found from IMDB.'']
   \<and> renderImdbPanel (fetchMoviesA
      \<lparr>getMovies = always (Resolves \<lparr>results = [], count = 0\<rparr>),
       searchMovies = always Throws, searchIMDB = always Throws\<rparr>
      0 0 False ''war'' 1 initialA) =
     [ErrorMessage ''Failed to load movies from IMDB'', MovieGrid []]"
  using external_panel_failure_rendering [of
      "\<lparr>getMovies = always (Resolves \<lparr>results = [], count = 0\<rparr>),
       searchMovies = always (Resolves No_data), searchIMDB = always Throws\<rparr>"
      "''war''" 0 0 True 1 initialA]
    external_panel_failure_rendering [of
      "\<lparr>getMovies = always (Resolves \<lparr>results = [], count = 0\<rparr>),
       searchMovies = always Throws, searchIMDB = always Throws\<rparr>"
      "''war''" 0 0 False 1 initialA]
  by (simp add: always_def)

text \<open>
  Claim C4: in variant A, whichever request settles first, a refresh whose local fetch
  throws while the external one resolves with a list shows the database error text in
  the database panel and the full list in the external panel; a refresh whose external
  fetch throws while the local one resolves shows the IMDB error text in the external
  panel and the full local result in the database panel. Settling one panel's fetch
  leaves the other panel's list, error text, loading flag and rendering unchanged.
\<close>

theorem panels_fail_independently:
  "(getMovies srv (request_params searchQuery pageNum) = Throws
      \<and> searchMovies srv (imdb_query searchQuery r1 r2) = Resolves (Has_list xs) \<longrightarrow>
      renderDbPanel (fetchMoviesA srv r1 r2 db_first searchQuery pageNum st) =
        [ErrorMessage ''Failed to load movies from database'', MovieGrid []] @
        (if totalPages st > 1 then
           [Pagination (page st) (totalPages st) (page st = 1) (page st = totalPages st)]
         else [])
    \<and> renderImdbPanel (fetchMoviesA srv r1 r2 db_first searchQuery pageNum st) =
        [MovieGrid (map (\<lambda>m. renderMovieCard m True) xs)] @
        (if xs = [] then [NoMovies ''No movies found from IMDB.''] else []))
   \<and> (getMovies srv (request_params searchQuery pageNum) = Resolves response
      \<and> searchMovies srv (imdb_query searchQuery r1 r2) = Throws \<longrightarrow>
      renderImdbPanel (fetchMoviesA srv r1 r2 db_first searchQuery pageNum st) =
        [ErrorMessage ''Failed to load movies from IMDB'', MovieGrid []]
    \<and> renderDbPanel (fetchMoviesA srv r1 r2 db_first searchQuery pageNum st) =
        [MovieGrid (map (\<lambda>m. renderMovieCard m False) (results response))] @
        (if results response = [] then
           [NoMovies (''No movies found in our database. '' @
                      (if searchTerm st \<noteq> [] then ''Try a different search term or '' else []) @
                      ''add a new movie.'')]
         else []) @
        (if calcTotalPages (count response) > 1 then
           [Pagination (page st) (calcTotalPages (count response)) (page st = 1)
              (page st = calcTotalPages (count response))]
         else []))
   \<and> renderImdbPanel (fetchFromDB_settle dbReply st) = renderImdbPanel st
   \<and> renderDbPanel (fetchFromIMDB_settle imdbReply st) = renderDbPanel st
   \<and> imdbMovies (fetchFromDB_settle dbReply st) = imdbMovies st
   \<and> imdbError (fetchFromDB_settle dbReply st) = imdbError st
   \<and> imdbLoading (fetchFromDB_settle dbReply st) = imdbLoading st
   \<and> dbMovies (fetchFromIMDB_settle imdbReply st) = dbMovies st
   \<and> dbError (fetchFromIMDB_settle imdbReply st) = dbError st
   \<and> dbLoading (fetchFromIMDB_settle imdbReply st) = dbLoading st"
proof (intro conjI impI)
  assume h: "getMovies srv (request_params searchQuery pageNum) = Throws
      \<and> searchMovies srv (imdb_query searchQuery r1 r2) = Resolves (Has_list xs)"
  from h show "renderDbPanel (fetchMoviesA srv r1 r2 db_first searchQuery pageNum st) =
        [ErrorMessage ''Failed to load movies from database'', MovieGrid []] @
        (if totalPages st > 1 then
           [Pagination (page st) (totalPages st) (page st = 1) (page st = totalPages st)]
         else [])"
    by (simp add: renderDbPanel_fetchMoviesA renderDbPanel_settle_Throws)
  from h show "renderImdbPanel (fetchMoviesA srv r1 r2 db_first searchQuery pageNum st) =
        [MovieGrid (map (\<lambda>m. renderMovieCard m True) xs)] @
        (if xs = [] then [NoMovies ''No movies found from IMDB.''] else [])"
    by (simp add: renderImdbPanel_fetchMoviesA renderImdbPanel_settle_Resolves)
next
  assume h: "getMovies srv (request_params searchQuery pageNum) = Resolves response
      \<and> searchMovies srv (imdb_query searchQuery r1 r2) = Throws"
  from h show "renderImdbPanel (fetchMoviesA srv r1 r2 db_first searchQuery pageNum st) =
        [ErrorMessage ''Failed to load movies from IMDB'', MovieGrid []]"
    by (simp add: renderImdbPanel_fetchMoviesA renderImdbPanel_settle_Throws)
  from h show "renderDbPanel (fetchMoviesA srv r1 r2 db_first searchQuery pageNum st) =
        [MovieGrid (map (\<lambda>m. renderMovieCard m False) (results response))] @
        (if results response = [] then
           [NoMovies (''No movies found in our database. '' @
                      (if searchTerm st \<noteq> [] then ''Try a different search term or '' else []) @
                      ''add a new movie.'')]
         else []) @
        (if calcTotalPages (count response) > 1 then
           [Pagination (page st) (calcTotalPages (count response)) (page st = 1)
              (page st = calcTotalPages (count response))]
         else [])"
    by (simp add: renderDbPanel_fetchMoviesA renderDbPanel_settle_Resolves)
qed simp_all

theorem panels_fail_independently_witness:
  "renderDbPanel (fetchMoviesA
      \<lparr>getMovies = always Throws,
       searchMovies = always (Resolves (Has_list
          [\<lparr>movie_id = None, description = None, Plot = Some ''A plot'', ratings_count = 0\<rparr>])),
       searchIMDB = always Throws\<rparr>
      0 0 True ''war'' 1 initialA) =
     [ErrorMessage ''Failed to load movies from database'', MovieGrid []]
   \<and> renderImdbPanel (fetchMoviesA
      \<lparr>getMovies = always Throws,
       searchMovies = always (Resolves (Has_list
          [\<lparr>movie_id = None, description = None, Plot = Some ''A plot'', ratings_count = 0\<rparr>])),
       searchIMDB = always Throws\<rparr>
      0 0 True ''war'' 1 initialA) =
     [MovieGrid [\<lparr>imdb_badge = True, description_text = ''A plot'', rating_count = None,
                  details_link = None\<rparr>]]
   \<and> renderImdbPanel (fetchMoviesA
      \<lparr>getMovies = always (Resolves
          \<lparr>results = [\<lparr>movie_id = Some 7, description = Some ''A film'', Plot = None,
                        ratings_count = 1\<rparr>],
           count = 1\<rparr>),
       searchMovies = always Throws, searchIMDB = always Throws\<rparr>
      0 0 False ''war'' 1 initialA) =
     [ErrorMessage ''Failed to load movies from IMDB'', MovieGrid []]
   \<and> renderDbPanel (fetchMoviesA
      \<lparr>getMovies = always (Resolves
          \<lparr>results = [\<lparr>movie_id = Some 7, description = Some ''A film'', Plot = None,
                        ratings_count = 1\<rparr>],
           count = 1\<rparr>),
       searchMovies = always Throws, searchIMDB = always Throws\<rparr>
      0 0 False ''war'' 1 initialA) =
     [MovieGrid [\<lparr>imdb_badge = False, description_text = ''A film'',
                  rating_count = Some ''(1 rating)'', details_link = Some (Some 7)\<rparr>]]"
  using panels_fail_independently [of
      "\<lparr>getMovies = always Throws,
       searchMovies = always (Resolves (Has_list
          [\<lparr>movie_id = None, description = None, Plot = Some ''A plot'', ratings_count = 0\<rparr>])),
       searchIMDB = always Throws\<rparr>"
      "''war''" 1 0 0
      "[\<lparr>movie_id = None, description = None, Plot = Some ''A plot'', ratings_count = 0\<rparr>]"
      True initialA]
    panels_fail_independently [of
      "\<lparr>getMovies = always (Resolves
          \<lparr>results = [\<lparr>movie_id = Some 7, description = Some ''A film'', Plot = None,
                        ratings_count = 1\<rparr>],
           count = 1\<rparr>),
       searchMovies = always Throws, searchIMDB = always Throws\<rparr>"
      "''war''" 1 0 0 _ False initialA
      "\<lparr>results = [\<lparr>movie_id = Some 7, description = Some ''A film'', Plot = None,
                        ratings_count = 1\<rparr>],
           count = 1\<rparr>"]
  by (simp add: always_def initialA_def renderMovieCard_def description_paragraph_def truthy_def
        rating_count_span_def string_of_number_def string_of_nat.simps digit_char_def
        calcTotalPages_div)



subsection \<open>Search submission\<close>

text \<open>
  Claim C7: in both variants, every submission of the search form resets the page to 1
  before any fetch is issued, and every fetch of the submission runs with page 1 and the
  current search text. The handler sets the page to 1 and starts a fetch; when the page
  has changed, the effect on the page starts a second one. In variant A the pending
  requests are the local one for page 1 with the current search text and the external
  one, once per fetch; however they settle, the page ends at 1, the search text is
  unchanged, the database panel is the one that the reply to the page-1 request gives
  (its result list and page count when it resolves), and the external panel is the one
  given by the reply to the query of one of the fetches (of the search text, when it is
  not empty). In variant B the submission ends in the state of one fetch for page 1 with
  the current search text, or of two of them when the page has changed, and the view is
  that of one such fetch: the local reply's list and page count when local results are
  displayed, the error text with one console entry per fetch when the request throws.
  In both variants the outcome depends on the collaborators only through their replies
  to these requests. When the requests of variant A settle in the order in which they
  were issued, the submission ends in the state of one refresh for page 1, or of two in
  a row when the page has changed.
\<close>

theorem search_submit_resets_page:
  assumes "mset events = mset (submitA_pending srv r1 r2 r3 r4 stA)"
  shows "page (handleSearchA stA) = 1
   \<and> page (handleSearchB stB) = 1
   \<and> submitA_pending srv r1 r2 r3 r4 stA =
       [DbSettles (getMovies srv \<lparr>param_page = 1,
          param_search = (if searchTerm stA \<noteq> [] then Some (searchTerm stA) else None)\<rparr>),
        ImdbSettles (searchMovies srv (imdb_query (searchTerm stA) r1 r2))] @
       (if page stA \<noteq> 1 then
          [DbSettles (getMovies srv \<lparr>param_page = 1,
             param_search = (if searchTerm stA \<noteq> [] then Some (searchTerm stA) else None)\<rparr>),
           ImdbSettles (searchMovies srv (imdb_query (searchTerm stA) r3 r4))]
        else [])
   \<and> (page (submitA events stA) = 1 \<and> searchTerm (submitA events stA) = searchTerm stA)
   \<and> renderDbPanel (submitA events stA) =
       renderDbPanel (fetchFromDB_settle
         (getMovies srv \<lparr>param_page = 1,
            param_search = (if searchTerm stA \<noteq> [] then Some (searchTerm stA) else None)\<rparr>)
         (stA\<lparr>page := 1\<rparr>))
   \<and> (getMovies srv \<lparr>param_page = 1,
          param_search = (if searchTerm stA \<noteq> [] then Some (searchTerm stA) else None)\<rparr> =
         Resolves response \<longrightarrow>
       dbMovies (submitA events stA) = results response
       \<and> totalPages (submitA events stA) = calcTotalPages (count response)
       \<and> dbError (submitA events stA) = []
       \<and> \<not> dbLoading (submitA events stA))
   \<and> (renderImdbPanel (submitA events stA) =
         renderImdbPanel (fetchFromIMDB_settle
           (searchMovies srv (imdb_query (searchTerm stA) r1 r2)) stA)
       \<or> (page stA \<noteq> 1 \<and>
          renderImdbPanel (submitA events stA) =
            renderImdbPanel (fetchFromIMDB_settle
              (searchMovies srv (imdb_query (searchTerm stA) r3 r4)) stA)))
   \<and> (searchTerm stA \<noteq> [] \<longrightarrow>
       renderImdbPanel (submitA events stA) =
         renderImdbPanel (fetchFromIMDB_settle (searchMovies srv (Some (searchTerm stA))) stA))
   \<and> (getMovies srv' \<lparr>param_page = 1,
          param_search = (if searchTerm stA \<noteq> [] then Some (searchTerm stA) else None)\<rparr> =
       getMovies srv \<lparr>param_page = 1,
          param_search = (if searchTerm stA \<noteq> [] then Some (searchTerm stA) else None)\<rparr>
       \<and> searchMovies srv' (imdb_query (searchTerm stA) r1 r2) =
           searchMovies srv (imdb_query (searchTerm stA) r1 r2)
       \<and> searchMovies srv' (imdb_query (searchTerm stA) r3 r4) =
           searchMovies srv (imdb_query (searchTerm stA) r3 r4) \<longrightarrow>
       submitA_pending srv' r1 r2 r3 r4 stA = submitA_pending srv r1 r2 r3 r4 stA)
   \<and> (page (submitB srv stB) = 1 \<and> searchTerm (submitB srv stB) = searchTerm stB)
   \<and> (page stB = 1 \<longrightarrow> submitB srv stB = fetchMoviesB srv (searchTerm stB) 1 stB)
   \<and> (page stB \<noteq> 1 \<longrightarrow>
       submitB srv stB =
         fetchMoviesB srv (searchTerm stB) 1
           (fetchMoviesB srv (searchTerm stB) 1 (stB\<lparr>page := 1\<rparr>)))
   \<and> renderB (submitB srv stB) =
       renderB (fetchMoviesB srv (searchTerm stB) 1 (stB\<lparr>page := 1\<rparr>))
   \<and> (getMovies srv \<lparr>param_page = 1,
          param_search = (if searchTerm stB \<noteq> [] then Some (searchTerm stB) else None)\<rparr> =
         Resolves responseB
       \<and> (searchTerm stB = [] \<or> results responseB \<noteq> []) \<longrightarrow>
       movies (submitB srv stB) = results responseB
       \<and> totalPages (submitB srv stB) = calcTotalPages (count responseB)
       \<and> searchSource (submitB srv stB) = Some Db
       \<and> error (submitB srv stB) = []
       \<and> \<not> loading (submitB srv stB))
   \<and> (getMovies srv \<lparr>param_page = 1,
          param_search = (if searchTerm stB \<noteq> [] then Some (searchTerm stB) else None)\<rparr> =
         Throws \<longrightarrow>
       error (submitB srv stB) = ''Failed to load movies''
       \<and> movies (submitB srv stB) = movies stB
       \<and> console (submitB srv stB) = console stB @ (if page stB \<noteq> 1 then [[], []] else [[]]))
   \<and> (getMovies srv' \<lparr>param_page = 1,
          param_search = (if searchTerm stB \<noteq> [] then Some (searchTerm stB) else None)\<rparr> =
       getMovies srv \<lparr>param_page = 1,
          param_search = (if searchTerm stB \<noteq> [] then Some (searchTerm stB) else None)\<rparr>
       \<and> searchIMDB srv' (searchTerm stB) = searchIMDB srv (searchTerm stB) \<longrightarrow>
       submitB srv' stB = submitB srv stB)
   \<and> submitA (submitA_pending srv r1 r2 r3 r4 stA) stA =
       (if page stA \<noteq> 1 then
          fetchMoviesA srv r3 r4 True (searchTerm stA) 1
            (fetchMoviesA srv r1 r2 True (searchTerm stA) 1 (stA\<lparr>page := 1\<rparr>))
        else fetchMoviesA srv r1 r2 True (searchTerm stA) 1 (stA\<lparr>page := 1\<rparr>))"
  by (intro conjI handleSearchA_frame(1) handleSearchB_frame(1) submitA_pending_page_1
        submitA_frame submitA_renderDbPanel [OF assms] submitA_db_reply [OF assms]
        submitA_renderImdbPanel [OF assms] submitA_renderImdbPanel_search [OF assms]
        submitA_pending_same_replies submitB_frame submitB_one_refresh submitB_two_refreshes
        submitB_render submitB_db_reply submitB_db_throw submitB_same_replies
        submitA_in_order)

theorem search_submit_resets_page_witness:
  "dbMovies (submitA
      [ImdbSettles (Resolves (Has_list [])),
       DbSettles (Resolves \<lparr>results = [\<lparr>movie_id = Some 7, description = Some ''A film'',
                                         Plot = None, ratings_count = 1\<rparr>], count = 25\<rparr>),
       DbSettles (Resolves \<lparr>results = [\<lparr>movie_id = Some 7, description = Some ''A film'',
                                         Plot = None, ratings_count = 1\<rparr>], count = 25\<rparr>),
       ImdbSettles (Resolves (Has_list []))]
      (initialA\<lparr>page := 3\<rparr>)) =
     [\<lparr>movie_id = Some 7, description = Some ''A film'', Plot = None, ratings_count = 1\<rparr>]
   \<and> totalPages (submitA
      [ImdbSettles (Resolves (Has_list [])),
       DbSettles (Resolves \<lparr>results = [\<lparr>movie_id = Some 7, description = Some ''A film'',
                                         Plot = None, ratings_count = 1\<rparr>], count = 25\<rparr>),
       DbSettles (Resolves \<lparr>results = [\<lparr>movie_id = Some 7, description = Some ''A film'',
                                         Plot = None, ratings_count = 1\<rparr>], count = 25\<rparr>),
       ImdbSettles (Resolves (Has_list []))]
      (initialA\<lparr>page := 3\<rparr>)) = 3
   \<and> movies (submitB
      \<lparr>getMovies = (\<lambda>p. if param_page p = 1
          then Resolves \<lparr>results = [\<lparr>movie_id = Some 7, description = Some ''A film'',
                                     Plot = None, ratings_count = 1\<rparr>], count = 25\<rparr>
          else Throws),
       searchMovies = always (Resolves (Has_list [])), searchIMDB = always Throws\<rparr>
      (initialB\<lparr>page := 3\<rparr>)) =
     [\<lparr>movie_id = Some 7, description = Some ''A film'', Plot = None, ratings_count = 1\<rparr>]
   \<and> page (submitB
      \<lparr>getMovies = (\<lambda>p. if param_page p = 1
          then Resolves \<lparr>results = [\<lparr>movie_id = Some 7, description = Some ''A film'',
                                     Plot = None, ratings_count = 1\<rparr>], count = 25\<rparr>
          else Throws),
       searchMovies = always (Resolves (Has_list [])), searchIMDB = always Throws\<rparr>
      (initialB\<lparr>page := 3\<rparr>)) = 1"
proof -
  let ?m = "\<lparr>movie_id = Some 7, description = Some ''A film'', Plot = None, ratings_count = 1\<rparr>"
  let ?resp = "\<lparr>results = [?m], count = 25\<rparr>"
  let ?srv = "\<lparr>getMovies = (\<lambda>p. if param_page p = 1 then Resolves ?resp else Throws),
       searchMovies = always (Resolves (Has_list [])), searchIMDB = always Throws\<rparr>"
  let ?events = "[ImdbSettles (Resolves (Has_list [])), DbSettles (Resolves ?resp),
       DbSettles (Resolves ?resp), ImdbSettles (Resolves (Has_list []))]"
  have perm: "mset ?events = mset (submitA_pending ?srv 0 0 0 0 (initialA\<lparr>page := 3\<rparr>))"
    by (simp add: submitA_pending_requests request_params_def always_def initialA_def)
  note all = search_submit_resets_page [OF perm, where stB = "initialB\<lparr>page := 3\<rparr>"
        and response = ?resp and responseB = ?resp and srv' = ?srv]
  note dbA = all [THEN conjunct2, THEN conjunct2, THEN conjunct2, THEN conjunct2, THEN conjunct2, THEN conjunct1]
  note frameB = all [THEN conjunct2, THEN conjunct2, THEN conjunct2, THEN conjunct2, THEN conjunct2, THEN conjunct2, THEN conjunct2, THEN conjunct2, THEN conjunct2, THEN conjunct1]
  note dbB = all [THEN conjunct2, THEN conjunct2, THEN conjunct2, THEN conjunct2, THEN conjunct2, THEN conjunct2, THEN conjunct2, THEN conjunct2, THEN conjunct2, THEN conjunct2, THEN conjunct2, THEN conjunct2, THEN conjunct2, THEN conjunct1]
  have a: "dbMovies (submitA ?events (initialA\<lparr>page := 3\<rparr>)) = [?m]
      \<and> totalPages (submitA ?events (initialA\<lparr>page := 3\<rparr>)) = 3"
    using dbA by (simp add: initialA_def calcTotalPages_div)
  have b: "movies (submitB ?srv (initialB\<lparr>page := 3\<rparr>)) = [?m]"
    using dbB by (simp add: initialB_def)
  have c: "page (submitB ?srv (initialB\<lparr>page := 3\<rparr>)) = 1"
    using frameB by simp
  from a b c show ?thesis by simp
qed

subsection \<open>Theme persistence\<close>

text \<open>
  Claim C8: on first load the preference equals the value stored under the key
  \<open>theme\<close> when one exists, for each of the theme preferences \<open>dark\<close>, \<open>light\<close> and
  \<open>system\<close> that the toggle can store, and equals \<open>dark\<close> when no value is stored.
  \<^verbatim>\<open>changeTheme\<close> sets the preference and writes it under the key in the same step, so
  a reload after choosing a preference gives that preference; in particular a reload
  after \<^verbatim>\<open>changeTheme('light')\<close> gives \<open>light\<close>.
\<close>

theorem theme_persistence:
  "(store ''theme'' = None \<longrightarrow> theme (mountThemeProvider store) = ''dark'')
   \<and> (store ''theme'' = Some v \<and> v \<in> set themes \<longrightarrow> theme (mountThemeProvider store) = v)
   \<and> theme (changeTheme w st) = w
   \<and> localStorage (changeTheme w st) ''theme'' = Some w
   \<and> (w \<in> set themes \<longrightarrow>
        localStorage (handleThemeChange w st) ''theme'' = Some w
        \<and> theme (reload (handleThemeChange w st)) = w)
   \<and> theme (reload (changeTheme ''light'' st)) = ''light''"
  by (auto simp add: mountThemeProvider_def initTheme_def changeTheme_def reload_def
        handleThemeChange_def themes_def)

theorem theme_persistence_witness:
  "theme (mountThemeProvider Map.empty) = ''dark''
   \<and> theme (mountThemeProvider (Map.empty(''theme'' \<mapsto> ''system''))) = ''system''
   \<and> ''system'' \<in> set themes
   \<and> theme (reload (handleThemeChange ''light'' (mountThemeProvider Map.empty))) = ''light''
   \<and> ''light'' \<in> set themes"
  using theme_persistence [of Map.empty _ "''light''" "mountThemeProvider Map.empty"]
    theme_persistence [of "Map.empty(''theme'' \<mapsto> ''system'')" "''system''" "''light''"
      "mountThemeProvider Map.empty"]
  by (simp add: themes_def)

end
